theory Spec2Isabelle
  imports Main
begin

section \<open>Python values\<close>

text \<open>
  The values that \<^verbatim>\<open>resp.json()\<close> can return and that the payload is built from:
  \<^verbatim>\<open>None\<close>, \<^verbatim>\<open>bool\<close>, \<^verbatim>\<open>int\<close>, \<^verbatim>\<open>float\<close>, \<^verbatim>\<open>str\<close>, \<^verbatim>\<open>list\<close> and \<^verbatim>\<open>dict\<close>.
  A float is kept as mantissa and binary exponent (its value is \<open>m * 2 ^ e\<close>), or as
  one of the non-finite values that Python's JSON decoder accepts; only whether it is
  zero matters below. A dict is an association list in insertion order; a key is looked
  up with \<open>map_of\<close>. A \<open>string\<close> is a list of 8-bit characters.
\<close>

datatype pyfloat = FloatFinite int int | FloatInf bool | FloatNaN

datatype jvalue =
    JNull
  | JBool bool
  | JInt int
  | JFloat pyfloat
  | JString string
  | JArray "jvalue list"
  | JObject "(string \<times> jvalue) list"

text \<open>Python's truth value of an object, as \<^verbatim>\<open>or\<close>, \<^verbatim>\<open>and\<close>, \<^verbatim>\<open>not\<close> and \<^verbatim>\<open>if\<close> test it.\<close>

fun float_nonzero :: "pyfloat \<Rightarrow> bool" where
  "float_nonzero (FloatFinite m e) = (m \<noteq> 0)"
| "float_nonzero (FloatInf s) = True"
| "float_nonzero FloatNaN = True"

fun truthy :: "jvalue \<Rightarrow> bool" where
  "truthy JNull = False"
| "truthy (JBool b) = b"
| "truthy (JInt i) = (i \<noteq> 0)"
| "truthy (JFloat f) = float_nonzero f"
| "truthy (JString s) = (s \<noteq> [])"
| "truthy (JArray xs) = (xs \<noteq> [])"
| "truthy (JObject kvs) = (kvs \<noteq> [])"

text \<open>\<^verbatim>\<open>a or b\<close>: the first operand when it is true, the second otherwise.\<close>

definition py_or :: "jvalue \<Rightarrow> jvalue \<Rightarrow> jvalue" where
  "py_or a b = (if truthy a then a else b)"

text \<open>\<^verbatim>\<open>isinstance(v, list)\<close>.\<close>

fun isinstance_list :: "jvalue \<Rightarrow> bool" where
  "isinstance_list (JArray xs) = True"
| "isinstance_list v = False"

text \<open>\<^verbatim>\<open>d.get(k)\<close> on a dict: the value stored under \<open>k\<close>, \<^verbatim>\<open>None\<close> when there is none.\<close>

definition dict_get :: "(string \<times> jvalue) list \<Rightarrow> string \<Rightarrow> jvalue" where
  "dict_get kvs k = (case map_of kvs k of None \<Rightarrow> JNull | Some v \<Rightarrow> v)"

text \<open>
  An argument of type \<^verbatim>\<open>Optional[str]\<close>: as a Python value, its falsity
  (\<^verbatim>\<open>not x\<close> holds of \<^verbatim>\<open>None\<close> and of the empty string), and formatted into a string
  (\<^verbatim>\<open>f"{x}"\<close> and \<^verbatim>\<open>"%s" % x\<close>).
\<close>

fun of_optional :: "string option \<Rightarrow> jvalue" where
  "of_optional None = JNull"
| "of_optional (Some s) = JString s"

fun py_not :: "string option \<Rightarrow> bool" where
  "py_not None = True"
| "py_not (Some s) = (s = [])"

fun format_optional :: "string option \<Rightarrow> string" where
  "format_optional None = ''None''"
| "format_optional (Some s) = s"

section \<open>Exceptions, configuration and the outside world\<close>

text \<open>
  The exceptions that can reach the handler's \<^verbatim>\<open>except Exception\<close>;
  \<open>ValueError\<close> carries its message and \<open>HTTPError\<close> the status code of its response.
  \<open>RequestException\<close> stands for what \<^verbatim>\<open>requests.post\<close> raises itself (connection
  failure, timeout), \<open>JSONDecodeError\<close> for what \<^verbatim>\<open>resp.json()\<close> raises on a body that is
  not JSON, \<open>AttributeError\<close> for \<^verbatim>\<open>.get\<close> on a value that is not a dict, and
  \<open>SlackApiError\<close> for a failing call of the Slack client.
\<close>

datatype error =
    ValueError string
  | RequestException
  | HTTPError int
  | JSONDecodeError
  | AttributeError
  | SlackApiError

text \<open>The module-level configuration, read from the environment at import (lines 36-38).\<close>

record config =
  CORTEX_AGENT_URL :: "string option"
  CORTEX_API_KEY :: "string option"
  CORTEX_TIMEOUT_SECONDS :: int

text \<open>The arguments of \<^verbatim>\<open>requests.post(url, headers=, json=, timeout=)\<close>.\<close>

record request =
  req_url :: "string option"
  req_headers :: "(string \<times> string) list"
  req_json :: jvalue
  req_timeout :: int

text \<open>
  What the relay reads of the response object: its status code, and what
  \<^verbatim>\<open>resp.json()\<close> gives, \<open>None\<close> when the body does not parse as JSON (the method raises).
\<close>

record response =
  status_code :: int
  json_result :: "jvalue option"

text \<open>The keyword arguments of \<^verbatim>\<open>client.chat_postMessage\<close>. The \<^verbatim>\<open>text\<close> is a value of
  the response, or the apology of line 212 built around the exception.\<close>

datatype text_arg = Value jvalue | Sorry error

record message =
  msg_channel :: string
  msg_blocks :: "jvalue option"
  msg_text :: text_arg

text \<open>Every effect of the code, in the order it happens.\<close>

datatype event =
    LoggerInfo string
  | RequestsPost request
  | Ack string
  | ConversationsOpen "string option"
  | ChatPostMessage message
  | LoggerException error

text \<open>
  The outside world answers each call from the events so far and the call's arguments:
  \<open>requests_post\<close> gives the response, \<open>None\<close> when the transport fails;
  \<open>conversations_open\<close> gives \<^verbatim>\<open>dm["channel"]["id"]\<close>, \<open>None\<close> when the call or the lookup
  raises; \<open>chat_postMessage\<close> is false when the call raises.
\<close>

record world =
  requests_post :: "event list \<Rightarrow> request \<Rightarrow> response option"
  conversations_open :: "event list \<Rightarrow> string option \<Rightarrow> string option"
  chat_postMessage :: "event list \<Rightarrow> message \<Rightarrow> bool"

section \<open>The Cortex API client\<close>

text \<open>Lines 119-123.\<close>

definition headers :: "config \<Rightarrow> (string \<times> string) list" where
  "headers cfg =
     [(''Authorization'', ''Bearer '' @ format_optional (CORTEX_API_KEY cfg)),
      (''Content-Type'', ''application/json''),
      (''Accept'', ''application/json'')]"

text \<open>Lines 124-133.\<close>

definition payload :: "string \<Rightarrow> string option \<Rightarrow> string option \<Rightarrow> string option \<Rightarrow> jvalue" where
  "payload question context user_id channel_id =
     JObject
       ([(''question'', JString question),
         (''source'', JString ''slack''),
         (''metadata'',
            JObject [(''slack_user_id'', of_optional user_id),
                     (''slack_channel_id'', of_optional channel_id)])]
        @ (if py_not context then [] else [(''context'', of_optional context)]))"

text \<open>
  \<^verbatim>\<open>Response.raise_for_status\<close> of the requests library: it raises \<^verbatim>\<open>HTTPError\<close> for a
  client error (400 to 499) and for a server error (500 to 599), and returns for every
  other status code.
\<close>

definition raise_for_status :: "response \<Rightarrow> error + unit" where
  "raise_for_status resp =
     (if 400 \<le> status_code resp \<and> status_code resp < 600
      then Inl (HTTPError (status_code resp)) else Inr ())"

text \<open>The log line of line 135 and the request of line 136.\<close>

definition log_line :: "config \<Rightarrow> event" where
  "log_line cfg = LoggerInfo (''Calling Cortex Agent: '' @ format_optional (CORTEX_AGENT_URL cfg))"

definition post_args ::
  "config \<Rightarrow> string \<Rightarrow> string option \<Rightarrow> string option \<Rightarrow> string option \<Rightarrow> request" where
  "post_args cfg question context user_id channel_id =
     \<lparr>req_url = CORTEX_AGENT_URL cfg,
      req_headers = headers cfg,
      req_json = payload question context user_id channel_id,
      req_timeout = CORTEX_TIMEOUT_SECONDS cfg\<rparr>"

text \<open>
  \<^verbatim>\<open>call_cortex_agent\<close> (lines 115-138): the events so far go in, the returned value or
  the raised exception comes out with the events extended.
\<close>

definition call_cortex_agent ::
  "config \<Rightarrow> world \<Rightarrow> string \<Rightarrow> string option \<Rightarrow> string option \<Rightarrow> string option
   \<Rightarrow> event list \<Rightarrow> (error + jvalue) \<times> event list" where
  "call_cortex_agent cfg w question context user_id channel_id tr =
     (if py_not (CORTEX_AGENT_URL cfg) \<or> py_not (CORTEX_API_KEY cfg)
      then (Inl (ValueError
              ''CORTEX_AGENT_URL and CORTEX_API_KEY must be set in environment variables''), tr)
      else
        let req = post_args cfg question context user_id channel_id;
            tr1 = tr @ [log_line cfg];
            tr2 = tr1 @ [RequestsPost req]
        in case requests_post w tr1 req of
             None \<Rightarrow> (Inl RequestException, tr2)
           | Some resp \<Rightarrow>
               (case raise_for_status resp of
                  Inl e \<Rightarrow> (Inl e, tr2)
                | Inr u \<Rightarrow>
                    (case json_result resp of
                       None \<Rightarrow> (Inl JSONDecodeError, tr2)
                     | Some v \<Rightarrow> (Inr v, tr2))))"

section \<open>The modal submission handler\<close>

text \<open>Line 193, on a result that is a dict.\<close>

definition answer :: "(string \<times> jvalue) list \<Rightarrow> jvalue" where
  "answer result =
     py_or (py_or (dict_get result ''answer'') (dict_get result ''message''))
       (JString ''No answer returned.'')"

text \<open>
  Lines 201-205: the keyword arguments of the \<^verbatim>\<open>chat_postMessage\<close> call, from the
  locals \<^verbatim>\<open>answer\<close>, \<^verbatim>\<open>rich\<close>, \<^verbatim>\<open>blocks\<close> and \<^verbatim>\<open>dm_channel\<close>.
\<close>

definition rendering :: "jvalue \<Rightarrow> jvalue \<Rightarrow> jvalue \<Rightarrow> string \<Rightarrow> message" where
  "rendering ans rich blks dm_channel =
     (if truthy blks \<and> isinstance_list blks
      then \<lparr>msg_channel = dm_channel, msg_blocks = Some blks, msg_text = Value ans\<rparr>
      else \<lparr>msg_channel = dm_channel, msg_blocks = None,
            msg_text = Value (if \<not> truthy rich then ans else rich)\<rparr>)"

text \<open>
  Lines 193-205, after the relay has returned \<open>result\<close>. A result that is not a dict has
  no \<^verbatim>\<open>get\<close>, so line 193 raises. Otherwise the direct-message channel is opened and the
  message posted; either call may raise.
\<close>

definition deliver ::
  "world \<Rightarrow> string option \<Rightarrow> jvalue \<Rightarrow> event list \<Rightarrow> (error + unit) \<times> event list" where
  "deliver w user_id result tr =
     (case result of
        JObject kvs \<Rightarrow>
          let ans = answer kvs;
              rich = dict_get kvs ''rich_text'';
              blks = dict_get kvs ''blocks'';
              tr1 = tr @ [ConversationsOpen user_id]
          in (case conversations_open w tr user_id of
                None \<Rightarrow> (Inl SlackApiError, tr1)
              | Some dm_channel \<Rightarrow>
                  let msg = rendering ans rich blks dm_channel;
                      tr2 = tr1 @ [ChatPostMessage msg]
                  in if chat_postMessage w tr1 msg then (Inr (), tr2)
                     else (Inl SlackApiError, tr2))
      | _ \<Rightarrow> (Inl AttributeError, tr))"

text \<open>Lines 207-214: the exception is logged and an apology is sent; a failure of
  sending it is swallowed.\<close>

definition apologise :: "world \<Rightarrow> string option \<Rightarrow> error \<Rightarrow> event list \<Rightarrow> event list" where
  "apologise w user_id e tr =
     (let tr1 = tr @ [LoggerException e];
          tr2 = tr1 @ [ConversationsOpen user_id]
      in case conversations_open w tr1 user_id of
           None \<Rightarrow> tr2
         | Some dm_channel \<Rightarrow>
             tr2 @ [ChatPostMessage \<lparr>msg_channel = dm_channel, msg_blocks = None, msg_text = Sorry e\<rparr>])"

text \<open>
  \<^verbatim>\<open>handle_modal_submission\<close> from line 187 on. Its inputs are the three values that
  lines 183-185 and 189 read from the Slack payload: the stripped \<open>question\<close>, the
  \<open>context\<close> and the \<open>user_id\<close>. The relay is called without a channel id.
\<close>

definition handle_modal_submission ::
  "config \<Rightarrow> world \<Rightarrow> string \<Rightarrow> string option \<Rightarrow> string option \<Rightarrow> event list" where
  "handle_modal_submission cfg w question context user_id =
     (case call_cortex_agent cfg w question context user_id None [Ack ''clear''] of
        (Inl e, tr) \<Rightarrow> apologise w user_id e tr
      | (Inr result, tr) \<Rightarrow>
          (case deliver w user_id result tr of
             (Inl e, tr') \<Rightarrow> apologise w user_id e tr'
           | (Inr u, tr') \<Rightarrow> tr'))"

section \<open>Observing a run\<close>

text \<open>The JSON bodies of the POSTs among the events, in order.\<close>

fun sent_payloads :: "event list \<Rightarrow> jvalue list" where
  "sent_payloads [] = []"
| "sent_payloads (RequestsPost r # es) = req_json r # sent_payloads es"
| "sent_payloads (e # es) = sent_payloads es"

text \<open>The keys of a dict and the value under a key, for a value that is a dict.\<close>

fun keys :: "jvalue \<Rightarrow> string list" where
  "keys (JObject kvs) = map fst kvs"
| "keys v = []"

fun lookup :: "jvalue \<Rightarrow> string \<Rightarrow> jvalue option" where
  "lookup (JObject kvs) k = map_of kvs k"
| "lookup v k = None"

text \<open>Whether a value is a list with at least one element.\<close>

fun nonempty_list :: "jvalue \<Rightarrow> bool" where
  "nonempty_list (JArray (x # xs)) = True"
| "nonempty_list v = False"

section \<open>Sample inputs\<close>

definition sample_config :: config where
  "sample_config =
     \<lparr>CORTEX_AGENT_URL = Some ''https://cortex.example/api/v1/agent/invoke'',
      CORTEX_API_KEY = Some ''k'',
      CORTEX_TIMEOUT_SECONDS = 60\<rparr>"

text \<open>A world whose endpoint always answers \<open>resp\<close> and whose Slack client always
  succeeds, opening the channel \<open>D1\<close>.\<close>

definition sample_world :: "response \<Rightarrow> world" where
  "sample_world resp =
     \<lparr>requests_post = (\<lambda>tr r. Some resp),
      conversations_open = (\<lambda>tr u. Some ''D1''),
      chat_postMessage = (\<lambda>tr m. True)\<rparr>"

section \<open>Facts about the relay\<close>

lemma sent_payloads_append: "sent_payloads (xs @ ys) = sent_payloads xs @ sent_payloads ys"
  by (induction xs rule: sent_payloads.induct) simp_all

lemma call_cortex_agent_events:
  assumes "\<not> py_not (CORTEX_AGENT_URL cfg)" and "\<not> py_not (CORTEX_API_KEY cfg)"
  shows "snd (call_cortex_agent cfg w question context user_id channel_id tr) =
           tr @ [log_line cfg, RequestsPost (post_args cfg question context user_id channel_id)]"
  using assms
  by (simp add: call_cortex_agent_def Let_def split: option.split sum.split)

lemma call_cortex_agent_sent:
  assumes "\<not> py_not (CORTEX_AGENT_URL cfg)" and "\<not> py_not (CORTEX_API_KEY cfg)"
  shows "sent_payloads (snd (call_cortex_agent cfg w question context user_id channel_id tr)) =
           sent_payloads tr @ [payload question context user_id channel_id]"
  using assms
  by (simp add: call_cortex_agent_events sent_payloads_append log_line_def post_args_def)

lemma call_cortex_agent_returns_json:
  assumes "\<not> py_not (CORTEX_AGENT_URL cfg)" and "\<not> py_not (CORTEX_API_KEY cfg)"
    and "requests_post w (tr @ [log_line cfg]) (post_args cfg question context user_id channel_id)
           = Some resp"
    and "200 \<le> status_code resp" and "status_code resp < 300"
    and "json_result resp = Some v"
  shows "call_cortex_agent cfg w question context user_id channel_id tr =
           (Inr v,
            tr @ [log_line cfg, RequestsPost (post_args cfg question context user_id channel_id)])"
  using assms by (simp add: call_cortex_agent_def raise_for_status_def Let_def)

lemma call_cortex_agent_transport_failure:
  assumes "\<not> py_not (CORTEX_AGENT_URL cfg)" and "\<not> py_not (CORTEX_API_KEY cfg)"
    and "requests_post w (tr @ [log_line cfg]) (post_args cfg question context user_id channel_id)
           = None"
  shows "fst (call_cortex_agent cfg w question context user_id channel_id tr) =
           Inl RequestException"
  using assms by (simp add: call_cortex_agent_def Let_def)

lemma nonempty_list_iff: "nonempty_list v \<longleftrightarrow> truthy v \<and> isinstance_list v"
  by (cases v rule: nonempty_list.cases) simp_all

lemma sample_config_set:
  "\<not> py_not (CORTEX_AGENT_URL sample_config)" "\<not> py_not (CORTEX_API_KEY sample_config)"
  by (simp_all add: sample_config_def)

section \<open>The outbound payload\<close>

text \<open>
  C1, as stated, fails: with question \<open>Q\<close>, caller \<open>U1\<close> and channel \<open>C1\<close> the one payload
  sent is not the object with source \<open>bot\<close> and metadata keys \<open>userId\<close> and \<open>channelId\<close>.
\<close>

theorem payload_source_bot_counterexample:
  "sent_payloads (snd (call_cortex_agent sample_config
       (sample_world \<lparr>status_code = 200, json_result = Some (JObject [])\<rparr>)
       ''Q'' None (Some ''U1'') (Some ''C1'') []))
   \<noteq> [JObject [(''question'', JString ''Q''), (''source'', JString ''bot''),
                (''metadata'', JObject [(''userId'', JString ''U1''),
                                        (''channelId'', JString ''C1'')])]]"
  by (simp add: call_cortex_agent_def sample_config_def sample_world_def Let_def
      raise_for_status_def post_args_def payload_def log_line_def)

text \<open>
  C1, amended. With the URL and the key configured, every call sends exactly one payload:
  the question, the source \<open>slack\<close>, the metadata with the keys \<open>slack_user_id\<close> and
  \<open>slack_channel_id\<close>, and a context field when the context is a non-empty string.
\<close>

theorem payload_exact:
  assumes "\<not> py_not (CORTEX_AGENT_URL cfg)" and "\<not> py_not (CORTEX_API_KEY cfg)"
  shows "sent_payloads (snd (call_cortex_agent cfg w question context user_id channel_id tr)) =
           sent_payloads tr @
           [JObject
              ([(''question'', JString question),
                (''source'', JString ''slack''),
                (''metadata'',
                   JObject [(''slack_user_id'', of_optional user_id),
                            (''slack_channel_id'', of_optional channel_id)])]
               @ (case context of
                    None \<Rightarrow> []
                  | Some c \<Rightarrow> if c = [] then [] else [(''context'', JString c)]))]"
  using assms
  by (simp add: call_cortex_agent_sent payload_def split: option.split)

theorem payload_exact_witness:
  "sent_payloads (snd (call_cortex_agent sample_config
       (sample_world \<lparr>status_code = 200, json_result = Some (JObject [])\<rparr>)
       ''Q'' (Some ''C'') (Some ''U1'') (Some ''C1'') [])) =
     [JObject [(''question'', JString ''Q''), (''source'', JString ''slack''),
               (''metadata'', JObject [(''slack_user_id'', JString ''U1''),
                                       (''slack_channel_id'', JString ''C1'')]),
               (''context'', JString ''C'')]]"
  using payload_exact [OF sample_config_set,
          of "sample_world \<lparr>status_code = 200, json_result = Some (JObject [])\<rparr>"
          "''Q''" "Some ''C''" "Some ''U1''" "Some ''C1''" "[]"]
  by simp

text \<open>
  C6. With the URL and the key configured: when the context is absent, the payload sent
  has no \<open>context\<close> key; when it is a non-empty string \<open>c\<close>, the payload sent has \<open>c\<close> under
  the key \<open>context\<close>.
\<close>

theorem context_key_sent_iff_given:
  assumes "\<not> py_not (CORTEX_AGENT_URL cfg)" and "\<not> py_not (CORTEX_API_KEY cfg)"
  shows "sent_payloads (snd (call_cortex_agent cfg w question None user_id channel_id tr)) =
           sent_payloads tr @ [payload question None user_id channel_id]
         \<and> ''context'' \<notin> set (keys (payload question None user_id channel_id))
         \<and> (c \<noteq> [] \<longrightarrow>
              sent_payloads
                (snd (call_cortex_agent cfg w question (Some c) user_id channel_id tr)) =
                sent_payloads tr @ [payload question (Some c) user_id channel_id]
              \<and> lookup (payload question (Some c) user_id channel_id) ''context'' =
                  Some (JString c))"
  using assms
  by (simp add: call_cortex_agent_sent payload_def)

theorem context_key_sent_iff_given_witness:
  "''context'' \<notin> set (keys (payload ''Q'' None (Some ''U1'') None))
   \<and> ''C'' \<noteq> []
   \<and> sent_payloads (snd (call_cortex_agent sample_config
         (sample_world \<lparr>status_code = 200, json_result = Some (JObject [])\<rparr>)
         ''Q'' (Some ''C'') (Some ''U1'') None [])) = [payload ''Q'' (Some ''C'') (Some ''U1'') None]
   \<and> lookup (payload ''Q'' (Some ''C'') (Some ''U1'') None) ''context'' = Some (JString ''C'')"
  using context_key_sent_iff_given [OF sample_config_set,
          of "sample_world \<lparr>status_code = 200, json_result = Some (JObject [])\<rparr>"
          "''Q''" "Some ''U1''" None "[]" "''C''"]
  by simp

text \<open>
  C9. With the URL and the key configured, the metadata of the payload sent always has
  both identity keys, the user id and the channel id, each holding the caller's argument
  and \<^verbatim>\<open>null\<close> when that argument is not supplied.
\<close>

theorem metadata_keys_always_present:
  assumes "\<not> py_not (CORTEX_AGENT_URL cfg)" and "\<not> py_not (CORTEX_API_KEY cfg)"
  shows "sent_payloads (snd (call_cortex_agent cfg w question context user_id channel_id tr)) =
           sent_payloads tr @ [payload question context user_id channel_id]
         \<and> lookup (payload question context user_id channel_id) ''metadata'' =
             Some (JObject [(''slack_user_id'', of_optional user_id),
                            (''slack_channel_id'', of_optional channel_id)])
         \<and> of_optional None = JNull"
  using assms
  by (simp add: call_cortex_agent_sent payload_def)

theorem metadata_keys_always_present_witness:
  "sent_payloads (snd (call_cortex_agent sample_config
       (sample_world \<lparr>status_code = 200, json_result = Some (JObject [])\<rparr>)
       ''Q'' None None None [])) = [payload ''Q'' None None None]
   \<and> lookup (payload ''Q'' None None None) ''metadata'' =
       Some (JObject [(''slack_user_id'', JNull), (''slack_channel_id'', JNull)])"
  using metadata_keys_always_present [OF sample_config_set,
          of "sample_world \<lparr>status_code = 200, json_result = Some (JObject [])\<rparr>"
          "''Q''" None None None "[]"]
  by simp

text \<open>
  C10. With the URL and the key configured, a call whose context is the empty string
  sends the same payload as a call without context, and that payload has no \<open>context\<close>
  key.
\<close>

theorem empty_context_omitted:
  assumes "\<not> py_not (CORTEX_AGENT_URL cfg)" and "\<not> py_not (CORTEX_API_KEY cfg)"
  shows "sent_payloads
           (snd (call_cortex_agent cfg w question (Some []) user_id channel_id tr)) =
           sent_payloads (snd (call_cortex_agent cfg w question None user_id channel_id tr))
         \<and> sent_payloads
             (snd (call_cortex_agent cfg w question (Some []) user_id channel_id tr)) =
             sent_payloads tr @ [payload question (Some []) user_id channel_id]
         \<and> ''context'' \<notin> set (keys (payload question (Some []) user_id channel_id))"
  using assms
  by (simp add: call_cortex_agent_sent payload_def)

theorem empty_context_omitted_witness:
  "sent_payloads (snd (call_cortex_agent sample_config
       (sample_world \<lparr>status_code = 200, json_result = Some (JObject [])\<rparr>)
       ''Q'' (Some []) (Some ''U1'') None [])) =
     [JObject [(''question'', JString ''Q''), (''source'', JString ''slack''),
               (''metadata'', JObject [(''slack_user_id'', JString ''U1''),
                                       (''slack_channel_id'', JNull)])]]"
  using empty_context_omitted [OF sample_config_set,
          of "sample_world \<lparr>status_code = 200, json_result = Some (JObject [])\<rparr>"
          "''Q''" "Some ''U1''" None "[]", THEN conjunct2, THEN conjunct1]
  by (simp add: payload_def)

section \<open>Failures of the relay\<close>

text \<open>
  C3. When the endpoint URL or the API key is unset, the relay raises its configuration
  error (a \<^verbatim>\<open>ValueError\<close> with the message of line 117) and adds no event to the run: no
  POST is issued.
\<close>

theorem config_unset_no_network_call:
  assumes "CORTEX_AGENT_URL cfg = None \<or> CORTEX_API_KEY cfg = None"
  shows "call_cortex_agent cfg w question context user_id channel_id tr =
           (Inl (ValueError
              ''CORTEX_AGENT_URL and CORTEX_API_KEY must be set in environment variables''), tr)"
  using assms by (auto simp: call_cortex_agent_def)

theorem config_unset_no_network_call_witness:
  "CORTEX_API_KEY (sample_config\<lparr>CORTEX_API_KEY := None\<rparr>) = None \<and>
   call_cortex_agent (sample_config\<lparr>CORTEX_API_KEY := None\<rparr>)
       (sample_world \<lparr>status_code = 200, json_result = Some (JObject [])\<rparr>)
       ''Q'' None None None [] =
     (Inl (ValueError
        ''CORTEX_AGENT_URL and CORTEX_API_KEY must be set in environment variables''), [])"
  using config_unset_no_network_call
          [of "sample_config\<lparr>CORTEX_API_KEY := None\<rparr>"
              "sample_world \<lparr>status_code = 200, json_result = Some (JObject [])\<rparr>"
              "''Q''" None None None "[]"]
  by simp

text \<open>
  C5, as stated, fails: a response with status 300, which is not 2xx, and a JSON body
  makes the relay return the parsed body; no exception is raised.
\<close>

theorem status_300_counterexample:
  "fst (call_cortex_agent sample_config
         (sample_world \<lparr>status_code = 300,
                         json_result = Some (JObject [(''answer'', JString ''A'')])\<rparr>)
         ''Q'' None None None []) = Inr (JObject [(''answer'', JString ''A'')])"
  by (simp add: call_cortex_agent_def sample_config_def sample_world_def Let_def
      raise_for_status_def)

text \<open>
  C5, amended. With the URL and the key configured, a response whose status code is from
  400 to 599 makes the relay raise \<^verbatim>\<open>HTTPError\<close> carrying that status code, and the run
  holds the one POST: nothing is retried.
\<close>

theorem http_error_raised_once:
  assumes "\<not> py_not (CORTEX_AGENT_URL cfg)" and "\<not> py_not (CORTEX_API_KEY cfg)"
    and "requests_post w (tr @ [log_line cfg]) (post_args cfg question context user_id channel_id)
           = Some resp"
    and "400 \<le> status_code resp" and "status_code resp < 600"
  shows "call_cortex_agent cfg w question context user_id channel_id tr =
           (Inl (HTTPError (status_code resp)),
            tr @ [log_line cfg, RequestsPost (post_args cfg question context user_id channel_id)])"
  using assms by (simp add: call_cortex_agent_def raise_for_status_def Let_def)

theorem http_error_raised_once_witness:
  "call_cortex_agent sample_config
     (sample_world \<lparr>status_code = 500, json_result = None\<rparr>) ''Q'' None None None [] =
   (Inl (HTTPError 500),
    [log_line sample_config, RequestsPost (post_args sample_config ''Q'' None None None)])"
  using http_error_raised_once [OF sample_config_set,
          of "sample_world \<lparr>status_code = 500, json_result = None\<rparr>" "[]"
             "''Q''" None None None "\<lparr>status_code = 500, json_result = None\<rparr>"]
  by (simp add: sample_world_def)

text \<open>
  C7. With the URL and the key configured, a response with a 2xx status code whose body
  does not parse as JSON makes the relay raise the decoder's error; it returns no result.
\<close>

theorem non_json_body_raises:
  assumes "\<not> py_not (CORTEX_AGENT_URL cfg)" and "\<not> py_not (CORTEX_API_KEY cfg)"
    and "requests_post w (tr @ [log_line cfg]) (post_args cfg question context user_id channel_id)
           = Some resp"
    and "200 \<le> status_code resp" and "status_code resp < 300"
    and "json_result resp = None"
  shows "call_cortex_agent cfg w question context user_id channel_id tr =
           (Inl JSONDecodeError,
            tr @ [log_line cfg, RequestsPost (post_args cfg question context user_id channel_id)])"
  using assms by (simp add: call_cortex_agent_def raise_for_status_def Let_def)

theorem non_json_body_raises_witness:
  "call_cortex_agent sample_config
     (sample_world \<lparr>status_code = 200, json_result = None\<rparr>) ''Q'' None None None [] =
   (Inl JSONDecodeError,
    [log_line sample_config, RequestsPost (post_args sample_config ''Q'' None None None)])"
  using non_json_body_raises [OF sample_config_set,
          of "sample_world \<lparr>status_code = 200, json_result = None\<rparr>" "[]"
             "''Q''" None None None "\<lparr>status_code = 200, json_result = None\<rparr>"]
  by (simp add: sample_world_def)

section \<open>Normalising and rendering the response\<close>

text \<open>
  C2, as stated, fails: for the response \<^verbatim>\<open>{"answer": ""}\<close> the answer field is present
  and holds the empty string, yet the text delivered is the placeholder.
\<close>

theorem empty_answer_counterexample:
  "handle_modal_submission sample_config
     (sample_world \<lparr>status_code = 200, json_result = Some (JObject [(''answer'', JString [])])\<rparr>)
     ''Q'' None (Some ''U1'') =
   [Ack ''clear'', log_line sample_config,
    RequestsPost (post_args sample_config ''Q'' None (Some ''U1'') None),
    ConversationsOpen (Some ''U1''),
    ChatPostMessage \<lparr>msg_channel = ''D1'', msg_blocks = None,
                     msg_text = Value (JString ''No answer returned.'')\<rparr>]"
  by (simp add: handle_modal_submission_def call_cortex_agent_def sample_config_def
      sample_world_def Let_def raise_for_status_def deliver_def answer_def py_or_def
      dict_get_def rendering_def)

text \<open>
  C2, amended. For a response object, the display text is the answer field when that is
  present and true in Python's sense (not \<^verbatim>\<open>null\<close>, empty, zero or \<^verbatim>\<open>false\<close>); otherwise the
  message field when that is present and true; otherwise the placeholder. In particular
  an answer that is a non-empty string \<open>X\<close> gives \<open>X\<close>, and a response with neither field
  gives the placeholder.
\<close>

theorem answer_first_truthy:
  "(map_of kvs ''answer'' = Some a \<and> truthy a \<longrightarrow> answer kvs = a)
   \<and> (\<not> truthy (dict_get kvs ''answer'') \<and> map_of kvs ''message'' = Some m \<and> truthy m
        \<longrightarrow> answer kvs = m)
   \<and> (\<not> truthy (dict_get kvs ''answer'') \<and> \<not> truthy (dict_get kvs ''message'')
        \<longrightarrow> answer kvs = JString ''No answer returned.'')
   \<and> (map_of kvs ''answer'' = None \<and> map_of kvs ''message'' = None
        \<longrightarrow> answer kvs = JString ''No answer returned.'')
   \<and> (map_of kvs ''answer'' = Some (JString X) \<and> X \<noteq> [] \<longrightarrow> answer kvs = JString X)"
  by (simp add: answer_def py_or_def dict_get_def)

theorem answer_first_truthy_witness:
  "answer [(''answer'', JString ''X''), (''message'', JString ''M'')] = JString ''X''
   \<and> answer [(''answer'', JNull), (''message'', JString ''M'')] = JString ''M''
   \<and> answer [(''answer'', JString []), (''message'', JInt 0)] = JString ''No answer returned.''
   \<and> answer [(''rich_text'', JString ''R'')] = JString ''No answer returned.''"
  using answer_first_truthy
          [of "[(''answer'', JString ''X''), (''message'', JString ''M'')]"
              "JString ''X''" "JString ''M''" "''X''"]
        answer_first_truthy
          [of "[(''answer'', JNull), (''message'', JString ''M'')]"
              JNull "JString ''M''" "''X''"]
        answer_first_truthy
          [of "[(''answer'', JString []), (''message'', JInt 0)]" JNull JNull "''X''"]
        answer_first_truthy [of "[(''rich_text'', JString ''R'')]" JNull JNull "''X''"]
  by (simp add: dict_get_def)

text \<open>
  C4. When the result's blocks field is a non-empty list and the direct-message channel
  opens, the message posted carries the blocks, with the display text as its \<^verbatim>\<open>text\<close>,
  whatever the rich text and the display text are.
\<close>

theorem blocks_preferred:
  assumes "map_of kvs ''blocks'' = Some (JArray (b # bs))"
    and "conversations_open w tr user_id = Some dm_channel"
  shows "snd (deliver w user_id (JObject kvs) tr) =
           tr @ [ConversationsOpen user_id,
                 ChatPostMessage \<lparr>msg_channel = dm_channel,
                                  msg_blocks = Some (JArray (b # bs)),
                                  msg_text = Value (answer kvs)\<rparr>]"
  using assms by (simp add: deliver_def rendering_def dict_get_def Let_def)

theorem blocks_preferred_witness:
  "snd (deliver (sample_world \<lparr>status_code = 200, json_result = None\<rparr>) (Some ''U1'')
          (JObject [(''answer'', JString ''A''), (''rich_text'', JString ''R''),
                    (''blocks'', JArray [JObject [(''type'', JString ''divider'')]])]) []) =
     [ConversationsOpen (Some ''U1''),
      ChatPostMessage \<lparr>msg_channel = ''D1'',
                       msg_blocks = Some (JArray [JObject [(''type'', JString ''divider'')]]),
                       msg_text = Value (JString ''A'')\<rparr>]"
  using blocks_preferred
          [of "[(''answer'', JString ''A''), (''rich_text'', JString ''R''),
                (''blocks'', JArray [JObject [(''type'', JString ''divider'')]])]"
              "JObject [(''type'', JString ''divider'')]" "[]"
              "sample_world \<lparr>status_code = 200, json_result = None\<rparr>" "[]" "Some ''U1''"
              "''D1''"]
  by (simp add: sample_world_def answer_def py_or_def dict_get_def)

text \<open>
  C8, as stated, fails: for the response \<^verbatim>\<open>{"answer": "A", "rich_text": ""}\<close>, without
  blocks, the rich text field is present, yet the text posted is the display text \<open>A\<close>.
\<close>

theorem empty_rich_text_counterexample:
  "handle_modal_submission sample_config
     (sample_world \<lparr>status_code = 200,
        json_result = Some (JObject [(''answer'', JString ''A''), (''rich_text'', JString [])])\<rparr>)
     ''Q'' None (Some ''U1'') =
   [Ack ''clear'', log_line sample_config,
    RequestsPost (post_args sample_config ''Q'' None (Some ''U1'') None),
    ConversationsOpen (Some ''U1''),
    ChatPostMessage \<lparr>msg_channel = ''D1'', msg_blocks = None, msg_text = Value (JString ''A'')\<rparr>]"
  by (simp add: handle_modal_submission_def call_cortex_agent_def sample_config_def
      sample_world_def Let_def raise_for_status_def deliver_def answer_def py_or_def
      dict_get_def rendering_def)

text \<open>
  C8, amended. When the result's blocks field is absent or is not a non-empty list and
  the direct-message channel opens, the message posted has no blocks, and its text is the
  rich text field when that is present and true in Python's sense, and the display text
  otherwise.
\<close>

theorem text_rendering:
  assumes "\<not> nonempty_list (dict_get kvs ''blocks'')"
    and "conversations_open w tr user_id = Some dm_channel"
  shows "snd (deliver w user_id (JObject kvs) tr) =
           tr @ [ConversationsOpen user_id,
                 ChatPostMessage \<lparr>msg_channel = dm_channel, msg_blocks = None,
                   msg_text = Value (if truthy (dict_get kvs ''rich_text'')
                                     then dict_get kvs ''rich_text'' else answer kvs)\<rparr>]"
  using assms by (simp add: deliver_def rendering_def nonempty_list_iff Let_def)

theorem text_rendering_witness:
  "snd (deliver (sample_world \<lparr>status_code = 200, json_result = None\<rparr>) (Some ''U1'')
          (JObject [(''answer'', JString ''A''), (''rich_text'', JString ''R''),
                    (''blocks'', JArray [])]) []) =
     [ConversationsOpen (Some ''U1''),
      ChatPostMessage \<lparr>msg_channel = ''D1'', msg_blocks = None,
                       msg_text = Value (JString ''R'')\<rparr>]"
  using text_rendering
          [of "[(''answer'', JString ''A''), (''rich_text'', JString ''R''),
                (''blocks'', JArray [])]"
              "sample_world \<lparr>status_code = 200, json_result = None\<rparr>" "[]" "Some ''U1''"
              "''D1''"]
  by (simp add: sample_world_def dict_get_def)

end
